theory Spec2Isabelle
  imports Main "HOL-Library.Word"
begin

section \<open>Strings and bytes\<close>

text \<open>
  A JavaScript string is modelled as the list of its code units, written as an Isabelle
  \<open>string\<close>; a character here is a code unit below 256 (the ISO-8859-1 range). The
  helpers below are the \<open>String.prototype\<close> methods that \<open>src/app.tsx\<close> calls.
\<close>

type_synonym byte = "8 word"

definition startsWith :: "string \<Rightarrow> string \<Rightarrow> bool" where
  "startsWith s p = (take (length p) s = p)"

fun includes_js :: "string \<Rightarrow> string \<Rightarrow> bool" where
  "includes_js [] p = (p = [])"
| "includes_js (c # cs) p = (startsWith (c # cs) p \<or> includes_js cs p)"

definition isWhiteSpace :: "char \<Rightarrow> bool" where
  \<comment> \<open>WhiteSpace and LineTerminator code units below 256: TAB, LF, VT, FF, CR, SP, NBSP\<close>
  "isWhiteSpace c = ((of_char c :: nat) \<in> {9, 10, 11, 12, 13, 32, 160})"

definition trim :: "string \<Rightarrow> string" where
  "trim s = rev (dropWhile isWhiteSpace (rev (dropWhile isWhiteSpace s)))"

definition toLowerCaseChar :: "char \<Rightarrow> char" where
  \<comment> \<open>A-Z, and the upper-case letters of U+00C0..U+00DE (U+00D7 is the multiplication sign)\<close>
  "toLowerCaseChar c =
     (let n = (of_char c :: nat)
      in if (65 \<le> n \<and> n \<le> 90) \<or> (192 \<le> n \<and> n \<le> 222 \<and> n \<noteq> 215)
         then char_of (n + 32) else c)"

definition toLowerCase :: "string \<Rightarrow> string" where
  "toLowerCase s = map toLowerCaseChar s"

definition split_pop :: "char \<Rightarrow> string \<Rightarrow> string" where
  \<comment> \<open>\<open>s.split(sep).pop()\<close>: what follows the last separator, all of \<open>s\<close> when there is none\<close>
  "split_pop sep s = rev (takeWhile (\<lambda>c. c \<noteq> sep) (rev s))"

definition split_first :: "char \<Rightarrow> string \<Rightarrow> string" where
  \<comment> \<open>\<open>s.split(sep)[0]\<close>: what precedes the first separator\<close>
  "split_first sep s = takeWhile (\<lambda>c. c \<noteq> sep) s"

definition byte_at :: "byte list \<Rightarrow> nat \<Rightarrow> byte option" where
  \<comment> \<open>\<open>bytes[i]\<close> on a \<open>Uint8Array\<close>: \<open>undefined\<close> (here \<open>None\<close>) out of range\<close>
  "byte_at bytes i = (if i < length bytes then Some (bytes ! i) else None)"

section \<open>Data model\<close>

text \<open>The union type \<open>"image/jpeg" | "image/png"\<close>.\<close>

datatype mime = ImageJpeg | ImagePng

text \<open>
  What is thrown or rejected, as far as the \<open>catch\<close> blocks tell values apart: a
  \<open>TypeError\<close> (which is an \<open>Error\<close>) with its message, any other \<open>Error\<close> with its
  message, or a value that is no \<open>Error\<close> (the event passed to \<open>reject\<close> by
  \<open>img.onerror\<close> and \<open>reader.onerror\<close>).
\<close>

datatype exn = TypeError string | Error string | NotAnError

text \<open>A \<open>File\<close>: its name, its declared type and its bytes.\<close>

record File =
  name :: string
  type :: string
  content :: "byte list"

text \<open>
  How a \<open>FileReader.readAsArrayBuffer\<close> ends: \<open>onload\<close> with the buffer, \<open>onload\<close>
  with no result (\<open>e.target?.result\<close> is falsy), or \<open>onerror\<close>.
\<close>

datatype read_outcome = Loaded | LoadedNoResult | ReadFailed

section \<open>getFileMimeType\<close>

definition sniffBytes :: "byte list \<Rightarrow> mime" where
  \<comment> \<open>the body of \<open>reader.onload\<close> once \<open>arrayBuffer\<close> is there (lines 116-136)\<close>
  "sniffBytes arrayBuffer =
     (let bytes = take 8 arrayBuffer
      in if byte_at bytes 0 = Some 0x89 \<and> byte_at bytes 1 = Some 0x50 \<and>
            byte_at bytes 2 = Some 0x4e \<and> byte_at bytes 3 = Some 0x47
         then ImagePng
         else if byte_at bytes 0 = Some 0xff \<and> byte_at bytes 1 = Some 0xd8 \<and>
                 byte_at bytes 2 = Some 0xff
         then ImageJpeg
         else ImageJpeg)"

section \<open>The regular expression of the data-URL branch\<close>

text \<open>
  \<open>url.match(/data:([^;]+)/)\<close>: the leftmost position where \<open>data:\<close> is followed by at
  least one character other than \<open>;\<close>; the group is the longest run of such characters.
  The result is the group \<open>mimeMatch[1]\<close>, or \<open>None\<close> for a \<open>null\<close> match.
\<close>

fun mimeMatch :: "string \<Rightarrow> string option" where
  "mimeMatch [] = None"
| "mimeMatch (c # cs) =
     (if startsWith (c # cs) ''data:'' \<and> takeWhile (\<lambda>x. x \<noteq> CHR '';'') (drop 5 (c # cs)) \<noteq> []
      then Some (takeWhile (\<lambda>x. x \<noteq> CHR '';'') (drop 5 (c # cs)))
      else mimeMatch cs)"

definition dataUrlMimeType :: "string \<Rightarrow> mime" where
  \<comment> \<open>lines 40-49 of \<open>getImageInfo\<close>\<close>
  "dataUrlMimeType url =
     (case mimeMatch url of
        None \<Rightarrow> ImageJpeg
      | Some detectedType \<Rightarrow>
          if detectedType = ''image/png'' then ImagePng
          else if detectedType = ''image/jpeg'' \<or> detectedType = ''image/jpg'' then ImageJpeg
          else ImageJpeg)"

definition contentTypeMimeType :: "string option \<Rightarrow> mime" where
  \<comment> \<open>lines 68-78: the header of the HEAD response, \<open>None\<close> when \<open>headers.get\<close> is \<open>null\<close>;
      the empty string is falsy\<close>
  "contentTypeMimeType contentType =
     (case contentType of
        None \<Rightarrow> ImageJpeg
      | Some ct \<Rightarrow>
          if ct = [] then ImageJpeg
          else if includes_js ct ''image/png'' then ImagePng
          else if includes_js ct ''image/jpeg'' \<or> includes_js ct ''image/jpg'' then ImageJpeg
          else ImageJpeg)"

definition extensionMimeType :: "string \<Rightarrow> mime" where
  \<comment> \<open>lines 81-84, the body of the \<open>catch\<close>\<close>
  "extensionMimeType url =
     (let extension = split_first (CHR ''?'') (toLowerCase (split_pop (CHR ''.'') url))
      in if extension = ''png'' then ImagePng else ImageJpeg)"

section \<open>Collaborators, effects and the component's state\<close>

text \<open>The options of \<open>upload\<close> (\<open>type\<close> is always \<open>"image"\<close>) and of \<open>addElement\<close>.\<close>

record upload_options =
  mimeType :: mime
  url :: string
  thumbnailUrl :: string
  width :: nat
  height :: nat
  aiDisclosure :: string

record image_element =
  ref :: string
  altText :: string

text \<open>
  Everything outside the component, as the outcome each call has: \<open>Inl\<close> is a throw or a
  rejection. \<open>upload\<close> resolves to the asset, identified by its \<open>ref\<close>;
  \<open>whenUploaded\<close> is the method of that asset. \<open>formatMessage\<close> maps a default message
  to the text shown.
\<close>

record world =
  formatMessage :: "string \<Rightarrow> string"
  new_URL :: "string \<Rightarrow> exn + unit"
  readAsArrayBuffer :: "File \<Rightarrow> read_outcome"
  readAsDataURL :: "File \<Rightarrow> exn + string"
  fetch_head :: "string \<Rightarrow> exn + string option"
  image_load :: "string \<Rightarrow> exn + nat \<times> nat"
  upload :: "upload_options \<Rightarrow> exn + string"
  addElement :: "image_element \<Rightarrow> exn + unit"
  whenUploaded :: "string \<Rightarrow> exn + unit"

text \<open>
  The effects of a run in the order they happen: the four state setters, and the awaited
  calls to the outside.
\<close>

datatype event =
    SetImageUrl string
  | SetIsUploading bool
  | SetError "string option"
  | SetSuccess bool
  | ReadAsArrayBuffer File
  | ReadAsDataURL File
  | FetchHead string
  | ImageLoad string
  | Upload upload_options
  | AddElement image_element
  | WhenUploaded string

fun is_call :: "event \<Rightarrow> bool" where
  "is_call (SetImageUrl _) = False"
| "is_call (SetIsUploading _) = False"
| "is_call (SetError _) = False"
| "is_call (SetSuccess _) = False"
| "is_call _ = True"

fun is_upload :: "event \<Rightarrow> bool" where
  "is_upload (Upload _) = True"
| "is_upload _ = False"

fun is_probe :: "event \<Rightarrow> bool" where
  \<comment> \<open>what a run does before it uploads: file reads, the HEAD request, the image decode\<close>
  "is_probe (ReadAsArrayBuffer _) = True"
| "is_probe (ReadAsDataURL _) = True"
| "is_probe (FetchHead _) = True"
| "is_probe (ImageLoad _) = True"
| "is_probe _ = False"

record app_state =
  imageUrl :: string
  isUploading :: bool
  error :: "string option"
  success :: bool

fun apply_event :: "app_state \<Rightarrow> event \<Rightarrow> app_state" where
  "apply_event s (SetImageUrl v) = s\<lparr>imageUrl := v\<rparr>"
| "apply_event s (SetIsUploading b) = s\<lparr>isUploading := b\<rparr>"
| "apply_event s (SetError e) = s\<lparr>error := e\<rparr>"
| "apply_event s (SetSuccess b) = s\<lparr>success := b\<rparr>"
| "apply_event s _ = s"

definition run :: "app_state \<Rightarrow> event list \<Rightarrow> app_state" where
  "run s evs = foldl apply_event s evs"

text \<open>
  An asynchronous computation: the effects it had, and how it settled. \<open>bind_io\<close> is
  \<open>await\<close> inside a \<open>try\<close>: a rejection skips what follows.
\<close>

type_synonym 'a io = "event list \<times> (exn + 'a)"

definition bind_io :: "'a io \<Rightarrow> ('a \<Rightarrow> 'b io) \<Rightarrow> 'b io" where
  "bind_io m f =
     (case m of
        (t, Inl e) \<Rightarrow> (t, Inl e)
      | (t, Inr a) \<Rightarrow> (case f a of (t', r) \<Rightarrow> (t @ t', r)))"

definition call :: "event \<Rightarrow> exn + 'a \<Rightarrow> 'a io" where
  "call ev r = ([ev], r)"

section \<open>The functions of the component\<close>

definition fileToDataUrl :: "world \<Rightarrow> File \<Rightarrow> string io" where
  "fileToDataUrl w f = call (ReadAsDataURL f) (readAsDataURL w f)"

definition getImageInfo :: "world \<Rightarrow> string \<Rightarrow> (nat \<times> nat \<times> mime) io" where
  \<comment> \<open>the result is \<open>(width, height, mimeType)\<close>; a failed \<open>fetch\<close> is caught inside\<close>
  "getImageInfo w u =
     (if startsWith u ''data:'' then
        (let mimeType = dataUrlMimeType u
         in bind_io (call (ImageLoad u) (image_load w u))
              (\<lambda>(wd, ht). ([], Inr (wd, ht, mimeType))))
      else
        bind_io
          (call (FetchHead u)
             (Inr (case fetch_head w u of
                     Inr contentType \<Rightarrow> contentTypeMimeType contentType
                   | Inl e \<Rightarrow> extensionMimeType u)))
          (\<lambda>mimeType.
             bind_io (call (ImageLoad u) (image_load w u))
               (\<lambda>(wd, ht). ([], Inr (wd, ht, mimeType)))))"

definition getFileMimeType :: "world \<Rightarrow> File \<Rightarrow> mime io" where
  \<comment> \<open>the declared type first; then the read of \<open>file.slice(0, 8)\<close>, every end of which
      resolves the promise\<close>
  "getFileMimeType w f =
     (if type f = ''image/png'' then ([], Inr ImagePng)
      else if type f = ''image/jpeg'' \<or> type f = ''image/jpg'' then ([], Inr ImageJpeg)
      else call (ReadAsArrayBuffer f)
             (case readAsArrayBuffer w f of
                Loaded \<Rightarrow> Inr (sniffBytes (take 8 (content f)))
              | LoadedNoResult \<Rightarrow> Inr ImageJpeg
              | ReadFailed \<Rightarrow> Inr ImageJpeg))"

definition fileErrorMessage :: "world \<Rightarrow> exn \<Rightarrow> string" where
  \<comment> \<open>\<open>err instanceof Error ? err.message : ...\<close> in \<open>handleFileUpload\<close>\<close>
  "fileErrorMessage w err =
     (case err of
        TypeError m \<Rightarrow> m
      | Error m \<Rightarrow> m
      | NotAnError \<Rightarrow> formatMessage w ''Failed to upload image. Please try again.'')"

definition handleFileUpload_try :: "world \<Rightarrow> File \<Rightarrow> unit io" where
  \<comment> \<open>the \<open>try\<close> block, lines 159-194\<close>
  "handleFileUpload_try w f =
     bind_io (getFileMimeType w f) (\<lambda>mimeType.
     bind_io (fileToDataUrl w f) (\<lambda>dataUrl.
     bind_io (getImageInfo w dataUrl) (\<lambda>(wd, ht, _).
     bind_io (let opts = \<lparr>mimeType = mimeType, url = dataUrl, thumbnailUrl = dataUrl,
                           width = wd, height = ht, aiDisclosure = ''none''\<rparr>
              in call (Upload opts) (upload w opts)) (\<lambda>image.
     bind_io (let el = \<lparr>ref = image,
                         altText = (if name f = [] then ''uploaded image'' else name f)\<rparr>
              in call (AddElement el) (addElement w el)) (\<lambda>_.
     bind_io (call (WhenUploaded image) (whenUploaded w image)) (\<lambda>_.
     ([SetSuccess True, SetImageUrl []], Inr ())))))))"

definition handleFileUpload :: "world \<Rightarrow> File \<Rightarrow> event list" where
  "handleFileUpload w f =
     (if \<not> startsWith (type f) ''image/'' then
        [SetError (Some (formatMessage w ''Please select an image file''))]
      else
        [SetIsUploading True, SetError None, SetSuccess False] @
        (case handleFileUpload_try w f of
           (t, Inr _) \<Rightarrow> t
         | (t, Inl err) \<Rightarrow> t @ [SetError (Some (fileErrorMessage w err))]) @
        [SetIsUploading False])"

definition urlErrorMessage :: "world \<Rightarrow> exn \<Rightarrow> string" where
  \<comment> \<open>the \<open>catch\<close> of \<open>handleUrlUpload\<close>, lines 261-277\<close>
  "urlErrorMessage w err =
     (case err of
        TypeError m \<Rightarrow>
          if includes_js m ''Invalid URL'' then formatMessage w ''Please enter a valid URL''
          else m
      | Error m \<Rightarrow> m
      | NotAnError \<Rightarrow>
          formatMessage w ''Failed to upload image. Please check the URL and try again.'')"

definition handleUrlUpload_try :: "world \<Rightarrow> string \<Rightarrow> unit io" where
  \<comment> \<open>the \<open>try\<close> block, lines 227-259; \<open>new URL(url)\<close> is synchronous and leaves no effect\<close>
  "handleUrlUpload_try w u =
     bind_io ([], new_URL w u) (\<lambda>_.
     bind_io (getImageInfo w u) (\<lambda>(wd, ht, mimeType).
     bind_io (let opts = \<lparr>mimeType = mimeType, url = u, thumbnailUrl = u,
                           width = wd, height = ht, aiDisclosure = ''none''\<rparr>
              in call (Upload opts) (upload w opts)) (\<lambda>image.
     bind_io (let el = \<lparr>ref = image, altText = ''uploaded image''\<rparr>
              in call (AddElement el) (addElement w el)) (\<lambda>_.
     bind_io (call (WhenUploaded image) (whenUploaded w image)) (\<lambda>_.
     ([SetSuccess True, SetImageUrl []], Inr ()))))))"

definition handleUrlUpload :: "world \<Rightarrow> string \<Rightarrow> event list" where
  "handleUrlUpload w u =
     (if trim u = [] then
        [SetError (Some (formatMessage w ''Please enter an image URL''))]
      else
        [SetIsUploading True, SetError None, SetSuccess False] @
        (case handleUrlUpload_try w u of
           (t, Inr _) \<Rightarrow> t
         | (t, Inl err) \<Rightarrow> t @ [SetError (Some (urlErrorMessage w err))]) @
        [SetIsUploading False])"

definition onChange :: "string \<Rightarrow> event list" where
  \<comment> \<open>the \<open>onChange\<close> of the \<open>TextInput\<close>, lines 324-328\<close>
  "onChange v = [SetImageUrl v, SetError None, SetSuccess False]"

section \<open>Byte signatures\<close>

definition PNG_signature :: "byte list" where
  "PNG_signature = [0x89, 0x50, 0x4e, 0x47]"

definition JPEG_signature :: "byte list" where
  "JPEG_signature = [0xff, 0xd8, 0xff]"

definition beginsWith :: "byte list \<Rightarrow> byte list \<Rightarrow> bool" where
  "beginsWith bytes sig = (take (length sig) bytes = sig)"

section \<open>The rendered component\<close>

definition indicators :: "app_state \<Rightarrow> string option \<times> bool" where
  "indicators s = (error s, success s)"

definition succeeded :: "event list \<Rightarrow> bool" where
  "succeeded t = (SetSuccess True \<in> set t)"

datatype submission = UrlSubmission string | FileSubmission File

fun submit :: "world \<Rightarrow> submission \<Rightarrow> event list" where
  "submit w (UrlSubmission u) = handleUrlUpload w u"
| "submit w (FileSubmission f) = handleFileUpload w f"

text \<open>The four \<open>useState\<close> defaults, lines 19-22.\<close>

definition initial_state :: app_state where
  "initial_state = \<lparr>imageUrl = [], isUploading = False, error = None, success = False\<rparr>"

text \<open>
  The \<open>disabled\<close> attributes of the button (line 342) and of the text and file inputs
  (lines 333 and 364).
\<close>

definition buttonDisabled :: "app_state \<Rightarrow> bool" where
  "buttonDisabled s = (isUploading s \<or> trim (imageUrl s) = [])"

definition inputDisabled :: "app_state \<Rightarrow> bool" where
  "inputDisabled s = isUploading s"

definition handleFileInputChange :: "world \<Rightarrow> File option \<Rightarrow> event list" where
  \<comment> \<open>lines 285-295; the argument is \<open>event.target.files?.[0]\<close>\<close>
  "handleFileInputChange w file = (case file of None \<Rightarrow> [] | Some f \<Rightarrow> handleFileUpload w f)"

text \<open>
  A handler runs without interruption up to each \<open>await\<close>, so a run is a list of
  segments, each ending with the call it awaits; the last one is what runs after the
  last \<open>await\<close>.
\<close>

fun segments :: "event list \<Rightarrow> event list list" where
  "segments [] = [[]]"
| "segments (e # es) =
     (if is_call e then [e] # segments es
      else (case segments es of [] \<Rightarrow> [[e]] | sg # sgs \<Rightarrow> (e # sg) # sgs))"

text \<open>
  The component between two events: its state, and the runs that wait at an \<open>await\<close>,
  each with all its effects and the segments it has still to do. What can happen next is
  a click on the button, a choice in the file input, an edit of the text input (each with
  no effect when its control is disabled), or the next segment of a waiting run. A click
  and a file choice bring the outcomes the collaborators will have for that run.
\<close>

type_synonym waiting = "event list \<times> event list list"

type_synonym component = "app_state \<times> waiting list"

datatype action = Click world | ChooseFile world "File option" | Edit string | Resume nat

definition start :: "component \<Rightarrow> event list \<Rightarrow> component" where
  \<comment> \<open>a handler is called: its first segment runs at once, the rest waits\<close>
  "start c t =
     (case c of (s, ps) \<Rightarrow>
        (case segments t of
           [] \<Rightarrow> (s, ps)
         | sg # rest \<Rightarrow> (run s sg, if rest = [] then ps else ps @ [(t, rest)])))"

fun perform :: "component \<Rightarrow> action \<Rightarrow> component" where
  "perform (s, ps) (Click w) =
     (if buttonDisabled s then (s, ps) else start (s, ps) (handleUrlUpload w (imageUrl s)))"
| "perform (s, ps) (ChooseFile w file) =
     (if inputDisabled s then (s, ps) else start (s, ps) (handleFileInputChange w file))"
| "perform (s, ps) (Edit v) =
     (if inputDisabled s then (s, ps) else (run s (onChange v), ps))"
| "perform (s, ps) (Resume i) =
     (if i < length ps then
        (case ps ! i of
           (t, []) \<Rightarrow> (s, take i ps @ drop (Suc i) ps)
         | (t, sg # rest) \<Rightarrow>
             (run s sg,
              take i ps @ (if rest = [] then [] else [(t, rest)]) @ drop (Suc i) ps))
      else (s, ps))"

definition execute :: "component \<Rightarrow> action list \<Rightarrow> component" where
  "execute c acts = foldl perform c acts"



section \<open>Example inputs\<close>

definition world_ok :: world where
  \<comment> \<open>every collaborator succeeds; the HEAD response has no Content-Type header\<close>
  "world_ok =
     \<lparr>formatMessage = (\<lambda>m. m), new_URL = (\<lambda>_. Inr ()),
      readAsArrayBuffer = (\<lambda>_. Loaded),
      readAsDataURL = (\<lambda>f. Inr (''data:'' @ type f @ '';base64,'')),
      fetch_head = (\<lambda>_. Inr None), image_load = (\<lambda>_. Inr (2, 3)),
      upload = (\<lambda>_. Inr ''asset''), addElement = (\<lambda>_. Inr ()),
      whenUploaded = (\<lambda>_. Inr ())\<rparr>"

definition world_no_decode :: world where
  \<comment> \<open>as \<open>world_ok\<close>, but no image decodes: \<open>img.onerror\<close> rejects with its event\<close>
  "world_no_decode = world_ok\<lparr>image_load := (\<lambda>_. Inl NotAnError)\<rparr>"

definition world_no_fetch :: world where
  \<comment> \<open>as \<open>world_ok\<close>, but the HEAD request fails\<close>
  "world_no_fetch = world_ok\<lparr>fetch_head := (\<lambda>_. Inl (TypeError ''Failed to fetch''))\<rparr>"

definition world_read_fails :: world where
  "world_read_fails = world_ok\<lparr>readAsArrayBuffer := (\<lambda>_. ReadFailed)\<rparr>"

definition world_v8 :: world where
  \<comment> \<open>as \<open>world_ok\<close>, but \<open>new URL\<close> throws on a string without a scheme, worded as V8 does\<close>
  "world_v8 =
     world_ok\<lparr>new_URL := (\<lambda>u. if startsWith u ''https://'' \<or> startsWith u ''data:''
                                 then Inr () else Inl (TypeError ''Invalid URL''))\<rparr>"

definition world_gecko :: world where
  \<comment> \<open>the same, worded as Gecko does\<close>
  "world_gecko =
     world_ok\<lparr>new_URL := (\<lambda>u. if startsWith u ''https://'' \<or> startsWith u ''data:''
                                 then Inr ()
                                 else Inl (TypeError (''URL constructor: '' @ u @
                                                      '' is not a valid URL.'')))\<rparr>"

definition png_bytes :: "byte list" where
  "png_bytes = [0x89, 0x50, 0x4e, 0x47, 0x0d, 0x0a, 0x1a, 0x0a]"

definition jpeg_bytes :: "byte list" where
  "jpeg_bytes = [0xff, 0xd8, 0xff, 0xe0, 0x00, 0x10, 0x4a, 0x46]"

definition png_declared_jpeg :: File where
  "png_declared_jpeg = \<lparr>name = ''photo.jpg'', type = ''image/jpeg'', content = png_bytes\<rparr>"

definition jpeg_declared_png :: File where
  "jpeg_declared_png = \<lparr>name = ''photo.png'', type = ''image/png'', content = jpeg_bytes\<rparr>"

definition png_declared_webp :: File where
  "png_declared_webp = \<lparr>name = ''photo.webp'', type = ''image/webp'', content = png_bytes\<rparr>"

definition jpeg_declared_webp :: File where
  "jpeg_declared_webp = \<lparr>name = ''photo.webp'', type = ''image/webp'', content = jpeg_bytes\<rparr>"

definition png_url :: string where
  "png_url = ''https://example.com/a.png?x=1''"

definition later_token_url :: string where
  \<comment> \<open>a data URL with no media type, whose data holds the text \<open>data:image/png;\<close>\<close>
  "later_token_url = ''data:;,data:image/png;''"

definition waiting_example :: component where
  \<comment> \<open>the URL is typed, the button is clicked, the run waits for the HEAD request\<close>
  "waiting_example = execute (initial_state, []) [Edit png_url, Click world_no_decode]"

definition state0 :: app_state where
  "state0 = \<lparr>imageUrl = ''https://example.com/a.png'', isUploading = False,
             error = None, success = False\<rparr>"

section \<open>The MIME type of a local file\<close>

lemma beginsWith_append:
  "beginsWith bytes sig \<Longrightarrow> \<exists>rest. bytes = sig @ rest"
  unfolding beginsWith_def by (metis append_take_drop_id)

lemma sniffBytes_png:
  assumes "beginsWith bytes PNG_signature"
  shows "sniffBytes (take 8 bytes) = ImagePng"
proof -
  from assms obtain rest where "bytes = PNG_signature @ rest"
    using beginsWith_append by blast
  then show ?thesis
    by (simp add: PNG_signature_def sniffBytes_def byte_at_def)
qed

lemma sniffBytes_jpeg:
  assumes "beginsWith bytes JPEG_signature"
  shows "sniffBytes (take 8 bytes) = ImageJpeg"
proof -
  from assms obtain rest where "bytes = JPEG_signature @ rest"
    using beginsWith_append by blast
  then show ?thesis
    by (simp add: JPEG_signature_def sniffBytes_def byte_at_def)
qed

text \<open>
  C1, as the specification states it, fails: a file that begins with the PNG signature
  and is declared \<open>image/jpeg\<close> is classified JPEG, and a file that begins with the JPEG
  signature and is declared \<open>image/png\<close> is classified PNG.
\<close>

theorem getFileMimeType_counterexample:
  "beginsWith (content png_declared_jpeg) PNG_signature \<and>
   snd (getFileMimeType world_ok png_declared_jpeg) = Inr ImageJpeg \<and>
   beginsWith (content jpeg_declared_png) JPEG_signature \<and>
   snd (getFileMimeType world_ok jpeg_declared_png) = Inr ImagePng"
  by (simp add: getFileMimeType_def png_declared_jpeg_def jpeg_declared_png_def
      beginsWith_def PNG_signature_def JPEG_signature_def png_bytes_def jpeg_bytes_def)

text \<open>
  C1, amended: the declared type is looked at first. A file declared \<open>image/png\<close> is
  PNG and a file declared \<open>image/jpeg\<close> or \<open>image/jpg\<close> is JPEG, whatever its bytes.
  For any other declared type, a file whose read loads and whose bytes begin with
  89 50 4E 47 is PNG; and a file that begins with FF D8 FF is JPEG unless it is declared
  \<open>image/png\<close>.
\<close>

theorem getFileMimeType_precedence:
  "(type f = ''image/png'' \<longrightarrow> snd (getFileMimeType w f) = Inr ImagePng) \<and>
   (type f = ''image/jpeg'' \<or> type f = ''image/jpg'' \<longrightarrow>
      snd (getFileMimeType w f) = Inr ImageJpeg) \<and>
   (type f \<noteq> ''image/png'' \<and> type f \<noteq> ''image/jpeg'' \<and> type f \<noteq> ''image/jpg'' \<and>
    readAsArrayBuffer w f = Loaded \<and> beginsWith (content f) PNG_signature \<longrightarrow>
      snd (getFileMimeType w f) = Inr ImagePng) \<and>
   (type f \<noteq> ''image/png'' \<and> beginsWith (content f) JPEG_signature \<longrightarrow>
      snd (getFileMimeType w f) = Inr ImageJpeg)"
  by (auto simp: getFileMimeType_def call_def sniffBytes_png sniffBytes_jpeg
      split: read_outcome.splits)

theorem getFileMimeType_precedence_witness:
  "snd (getFileMimeType world_ok jpeg_declared_png) = Inr ImagePng \<and>
   snd (getFileMimeType world_ok png_declared_jpeg) = Inr ImageJpeg \<and>
   snd (getFileMimeType world_ok png_declared_webp) = Inr ImagePng \<and>
   snd (getFileMimeType world_ok jpeg_declared_webp) = Inr ImageJpeg"
  using getFileMimeType_precedence [of jpeg_declared_png world_ok]
    getFileMimeType_precedence [of png_declared_jpeg world_ok]
    getFileMimeType_precedence [of png_declared_webp world_ok]
    getFileMimeType_precedence [of jpeg_declared_webp world_ok]
  by (simp add: jpeg_declared_png_def png_declared_jpeg_def png_declared_webp_def
      jpeg_declared_webp_def world_ok_def beginsWith_def PNG_signature_def JPEG_signature_def
      png_bytes_def jpeg_bytes_def)

text \<open>
  C9: the promise of \<open>getFileMimeType\<close> always resolves, for every file and every end
  of the read (buffer, no buffer, reader error), and to \<open>image/png\<close> or \<open>image/jpeg\<close>.
\<close>

theorem getFileMimeType_total:
  "snd (getFileMimeType w f) = Inr ImagePng \<or> snd (getFileMimeType w f) = Inr ImageJpeg"
  by (cases "sniffBytes (take 8 (content f))")
     (auto simp: getFileMimeType_def call_def split: read_outcome.splits)

text \<open>A reader error ends in the default, whatever the bytes are.\<close>

lemma getFileMimeType_read_fails:
  "beginsWith (content png_declared_webp) PNG_signature \<and>
   snd (getFileMimeType world_read_fails png_declared_webp) = Inr ImageJpeg"
  by (simp add: getFileMimeType_def call_def world_read_fails_def world_ok_def png_declared_webp_def beginsWith_def
      PNG_signature_def png_bytes_def)

section \<open>What the component's state is after a list of effects\<close>

lemma run_simps:
  "run s [] = s"
  "run s (e # es) = run (apply_event s e) es"
  "run s (xs @ ys) = run (run s xs) ys"
  by (simp_all add: run_def)

lemma run_calls: "list_all is_call t \<Longrightarrow> run s t = s"
proof (induction t arbitrary: s)
  case Nil
  then show ?case by (simp add: run_simps)
next
  case (Cons e t)
  then show ?case by (cases e) (simp_all add: run_simps)
qed

lemma is_probe_is_call: "is_probe e \<Longrightarrow> is_call e"
  by (cases e) simp_all

lemma probes_calls: "list_all is_probe t \<Longrightarrow> list_all is_call t"
  by (induction t) (auto simp: is_probe_is_call)

lemma calls_no_success: "list_all is_call t \<Longrightarrow> SetSuccess b \<notin> set t"
  by (induction t) auto

section \<open>The text input\<close>

text \<open>
  C8: an edit of the URL input clears the error and the success indicator and stores the
  value typed, from any state (so also after a failed or a succeeded run); the busy flag
  is left as it is.
\<close>

theorem onChange_resets:
  "error (run s (onChange v)) = None \<and> success (run s (onChange v)) = False \<and>
   imageUrl (run s (onChange v)) = v \<and> isUploading (run s (onChange v)) = isUploading s"
  by (simp add: onChange_def run_simps)

section \<open>The MIME type of a remote URL\<close>





text \<open>
  Line 81 takes what follows the last dot of the whole URL and only then cuts at the
  question mark, so a dot inside the query string decides the extension.
\<close>

lemma extensionMimeType_dotted_query:
  "extensionMimeType ''https://example.com/a.png?v=1.2'' = ImageJpeg"
  "extensionMimeType ''https://example.com/a.jpg?next=b.png'' = ImagePng"
  by (simp_all add: extensionMimeType_def split_pop_def split_first_def toLowerCase_def
      toLowerCaseChar_def)

section \<open>The MIME type of a data URL\<close>

lemma mimeMatch_prefix:
  assumes "tok \<noteq> []" and "CHR '';'' \<notin> set tok"
  shows "mimeMatch (''data:'' @ tok @ CHR '';'' # rest) = Some tok"
proof -
  have "takeWhile (\<lambda>x. x \<noteq> CHR '';'') (tok @ CHR '';'' # rest) = tok"
    using assms(2) by (subst takeWhile_tail) auto
  with assms(1) show ?thesis
    by (simp add: startsWith_def)
qed

lemma dataUrlMimeType_prefixes:
  "dataUrlMimeType (''data:image/png;'' @ rest) = ImagePng"
  "dataUrlMimeType (''data:image/jpeg;'' @ rest) = ImageJpeg"
  "dataUrlMimeType (''data:image/jpg;'' @ rest) = ImageJpeg"
  by (simp_all add: dataUrlMimeType_def startsWith_def)

lemma dataUrlMimeType_other_token:
  assumes "startsWith u ''data:''"
    and "takeWhile (\<lambda>c. c \<noteq> CHR '';'') (drop 5 u) = tok" and "tok \<noteq> []"
  shows "dataUrlMimeType u = (if tok = ''image/png'' then ImagePng else ImageJpeg)"
proof -
  from assms(1) obtain c cs where "u = c # cs"
    by (cases u) (auto simp: startsWith_def)
  with assms show ?thesis
    by (simp add: dataUrlMimeType_def)
qed

lemma dataUrlMimeType_no_match:
  "mimeMatch u = None \<Longrightarrow> dataUrlMimeType u = ImageJpeg"
  by (simp add: dataUrlMimeType_def)


text \<open>
  C7 at the input \<open>data:;,data:image/png;\<close>: the URL starts with \<open>data:\<close>, no token
  stands between \<open>data:\<close> and the first \<open>;\<close>, and yet the type is PNG: the regular
  expression is not anchored and finds the text \<open>data:image/png\<close> further on.
\<close>

theorem getImageInfo_data_url_later_token:
  "startsWith later_token_url ''data:'' \<and>
   takeWhile (\<lambda>c. c \<noteq> CHR '';'') (drop 5 later_token_url) = [] \<and>
   snd (getImageInfo world_ok later_token_url) = Inr (2, 3, ImagePng)"
  by (simp add: getImageInfo_def bind_io_def call_def world_ok_def startsWith_def
      dataUrlMimeType_def later_token_url_def)

section \<open>The shape of a run\<close>

lemma bind_io_Inr:
  "bind_io m f = (t, Inr y) \<longleftrightarrow>
     (\<exists>t1 x t2. m = (t1, Inr x) \<and> f x = (t2, Inr y) \<and> t = t1 @ t2)"
  by (cases m; cases "snd m") (auto simp: bind_io_def split: prod.splits)

lemma bind_io_Inl:
  "bind_io m f = (t, Inl e) \<longleftrightarrow>
     (m = (t, Inl e) \<or> (\<exists>t1 x t2. m = (t1, Inr x) \<and> f x = (t2, Inl e) \<and> t = t1 @ t2))"
  by (cases m; cases "snd m") (auto simp: bind_io_def split: prod.splits)

lemma getImageInfo_Inr:
  "getImageInfo w u = (t, Inr (wd, ht, m)) \<Longrightarrow>
     image_load w u = Inr (wd, ht) \<and>
     t = (if startsWith u ''data:'' then [] else [FetchHead u]) @ [ImageLoad u]"
  by (auto simp: getImageInfo_def bind_io_Inr call_def Let_def split: if_splits)

lemma getImageInfo_Inl:
  "getImageInfo w u = (t, Inl e) \<Longrightarrow>
     image_load w u = Inl e \<and>
     t = (if startsWith u ''data:'' then [] else [FetchHead u]) @ [ImageLoad u]"
  by (auto simp: getImageInfo_def bind_io_Inl call_def Let_def split: if_splits)

lemma getFileMimeType_shape:
  "getFileMimeType w f = (t, r) \<Longrightarrow> (t = [] \<or> t = [ReadAsArrayBuffer f]) \<and> (\<exists>m. r = Inr m)"
  by (auto simp: getFileMimeType_def call_def split: if_splits read_outcome.splits)

lemma handleUrlUpload_try_Inr:
  assumes "handleUrlUpload_try w u = (t, Inr x)"
  shows "\<exists>probes opts image el.
           t = probes @ [Upload opts, AddElement el, WhenUploaded image,
                         SetSuccess True, SetImageUrl []] \<and>
           list_all is_probe probes \<and> probes \<noteq> [] \<and> upload w opts = Inr image \<and> ref el = image \<and>
           addElement w el = Inr () \<and> whenUploaded w image = Inr ()"
  using assms
  by (auto simp: handleUrlUpload_try_def bind_io_Inr call_def Let_def dest!: getImageInfo_Inr)

lemma handleUrlUpload_try_Inl:
  assumes "handleUrlUpload_try w u = (t, Inl e)"
  shows "list_all is_call t"
  using assms
  by (auto simp: handleUrlUpload_try_def bind_io_Inr bind_io_Inl call_def Let_def
      dest!: getImageInfo_Inr getImageInfo_Inl)

lemma handleFileUpload_try_Inr:
  assumes "handleFileUpload_try w f = (t, Inr x)"
  shows "\<exists>probes opts image el.
           t = probes @ [Upload opts, AddElement el, WhenUploaded image,
                         SetSuccess True, SetImageUrl []] \<and>
           list_all is_probe probes \<and> probes \<noteq> [] \<and> upload w opts = Inr image \<and> ref el = image \<and>
           addElement w el = Inr () \<and> whenUploaded w image = Inr ()"
  using assms
  by (auto simp: handleFileUpload_try_def bind_io_Inr call_def Let_def fileToDataUrl_def
      dest!: getImageInfo_Inr getFileMimeType_shape)

lemma handleFileUpload_try_Inl:
  assumes "handleFileUpload_try w f = (t, Inl e)"
  shows "list_all is_call t"
  using assms
  by (auto simp: handleFileUpload_try_def bind_io_Inr bind_io_Inl call_def Let_def fileToDataUrl_def
      dest!: getImageInfo_Inr getImageInfo_Inl getFileMimeType_shape)


lemma handleUrlUpload_success_shape:
  assumes "succeeded (handleUrlUpload w u)"
  shows "\<exists>probes opts image el.
           handleUrlUpload w u =
             [SetIsUploading True, SetError None, SetSuccess False] @ probes @
             [Upload opts, AddElement el, WhenUploaded image,
              SetSuccess True, SetImageUrl [], SetIsUploading False] \<and>
           list_all is_probe probes \<and> probes \<noteq> [] \<and> upload w opts = Inr image \<and> ref el = image \<and>
           addElement w el = Inr () \<and> whenUploaded w image = Inr ()"
proof -
  obtain t r where tr: "handleUrlUpload_try w u = (t, r)"
    by (cases "handleUrlUpload_try w u")
  from assms have ne: "trim u \<noteq> []"
    by (auto simp: handleUrlUpload_def succeeded_def split: if_splits)
  show ?thesis
  proof (cases r)
    case (Inl e)
    with tr have "list_all is_call t"
      using handleUrlUpload_try_Inl by blast
    then have "SetSuccess True \<notin> set t"
      by (rule calls_no_success)
    with assms ne tr Inl show ?thesis
      by (simp add: handleUrlUpload_def succeeded_def)
  next
    case (Inr x)
    with tr handleUrlUpload_try_Inr [of w u t x] ne show ?thesis
      by (auto simp: handleUrlUpload_def)
  qed
qed

lemma handleFileUpload_success_shape:
  assumes "succeeded (handleFileUpload w f)"
  shows "\<exists>probes opts image el.
           handleFileUpload w f =
             [SetIsUploading True, SetError None, SetSuccess False] @ probes @
             [Upload opts, AddElement el, WhenUploaded image,
              SetSuccess True, SetImageUrl [], SetIsUploading False] \<and>
           list_all is_probe probes \<and> probes \<noteq> [] \<and> upload w opts = Inr image \<and> ref el = image \<and>
           addElement w el = Inr () \<and> whenUploaded w image = Inr ()"
proof -
  obtain t r where tr: "handleFileUpload_try w f = (t, r)"
    by (cases "handleFileUpload_try w f")
  from assms have ne: "startsWith (type f) ''image/''"
    by (auto simp: handleFileUpload_def succeeded_def split: if_splits)
  show ?thesis
  proof (cases r)
    case (Inl e)
    with tr have "list_all is_call t"
      using handleFileUpload_try_Inl by blast
    then have "SetSuccess True \<notin> set t"
      by (rule calls_no_success)
    with assms ne tr Inl show ?thesis
      by (simp add: handleFileUpload_def succeeded_def)
  next
    case (Inr x)
    with tr handleFileUpload_try_Inr [of w f t x] ne show ?thesis
      by (auto simp: handleFileUpload_def)
  qed
qed

lemma submit_success_shape:
  assumes "succeeded (submit w sub)"
  shows "\<exists>probes opts image el.
           submit w sub =
             [SetIsUploading True, SetError None, SetSuccess False] @ probes @
             [Upload opts, AddElement el, WhenUploaded image,
              SetSuccess True, SetImageUrl [], SetIsUploading False] \<and>
           list_all is_probe probes \<and> probes \<noteq> [] \<and> upload w opts = Inr image \<and> ref el = image \<and>
           addElement w el = Inr () \<and> whenUploaded w image = Inr ()"
  using assms handleUrlUpload_success_shape handleFileUpload_success_shape
  by (cases sub) simp_all


section \<open>Example runs\<close>

lemmas handler_defs =
  handleUrlUpload_def handleUrlUpload_try_def handleFileUpload_def handleFileUpload_try_def
  getImageInfo_def getFileMimeType_def fileToDataUrl_def bind_io_def call_def
  urlErrorMessage_def fileErrorMessage_def

lemmas string_defs =
  startsWith_def trim_def isWhiteSpace_def dataUrlMimeType_def contentTypeMimeType_def
  extensionMimeType_def

lemmas world_defs =
  world_ok_def world_no_decode_def world_no_fetch_def world_read_fails_def world_v8_def
  world_gecko_def

lemma url_ok_trace:
  "handleUrlUpload world_ok png_url =
     [SetIsUploading True, SetError None, SetSuccess False, FetchHead png_url, ImageLoad png_url,
      Upload \<lparr>mimeType = ImageJpeg, url = png_url, thumbnailUrl = png_url, width = 2,
              height = 3, aiDisclosure = ''none''\<rparr>,
      AddElement \<lparr>ref = ''asset'', altText = ''uploaded image''\<rparr>, WhenUploaded ''asset'',
      SetSuccess True, SetImageUrl [], SetIsUploading False]"
  by (simp add: handler_defs string_defs world_defs png_url_def)

lemma url_no_decode_trace:
  "handleUrlUpload world_no_decode png_url =
     [SetIsUploading True, SetError None, SetSuccess False, FetchHead png_url, ImageLoad png_url,
      SetError (Some ''Failed to upload image. Please check the URL and try again.''),
      SetIsUploading False]"
  by (simp add: handler_defs string_defs world_defs png_url_def)

lemma file_ok_trace:
  "handleFileUpload world_ok png_declared_webp =
     [SetIsUploading True, SetError None, SetSuccess False,
      ReadAsArrayBuffer png_declared_webp, ReadAsDataURL png_declared_webp,
      ImageLoad ''data:image/webp;base64,'',
      Upload \<lparr>mimeType = ImagePng, url = ''data:image/webp;base64,'',
              thumbnailUrl = ''data:image/webp;base64,'', width = 2,
              height = 3, aiDisclosure = ''none''\<rparr>,
      AddElement \<lparr>ref = ''asset'', altText = ''photo.webp''\<rparr>, WhenUploaded ''asset'',
      SetSuccess True, SetImageUrl [], SetIsUploading False]"
  by (simp add: handler_defs string_defs world_defs png_declared_webp_def sniffBytes_def
      byte_at_def png_bytes_def)

lemma file_no_decode_trace:
  "handleFileUpload world_no_decode png_declared_webp =
     [SetIsUploading True, SetError None, SetSuccess False,
      ReadAsArrayBuffer png_declared_webp, ReadAsDataURL png_declared_webp,
      ImageLoad ''data:image/webp;base64,'',
      SetError (Some ''Failed to upload image. Please try again.''),
      SetIsUploading False]"
  by (simp add: handler_defs string_defs world_defs png_declared_webp_def sniffBytes_def
      byte_at_def png_bytes_def)

section \<open>Input errors\<close>

lemma trim_whitespace:
  assumes "\<forall>c \<in> set u. isWhiteSpace c"
  shows "trim u = []"
proof -
  from assms have d: "dropWhile isWhiteSpace u = []"
    by simp
  show ?thesis
    unfolding trim_def d by simp
qed

text \<open>
  A URL that is empty once trimmed sets the error "Please enter an image URL" and the
  run makes no call at all. Whatever \<open>new URL\<close> throws, the run sets an error and makes
  no call; the error is "Please enter a valid URL" when a \<open>TypeError\<close> is thrown whose
  message contains "Invalid URL".
\<close>

lemma handleUrlUpload_blank:
  assumes "trim u = []"
  shows "handleUrlUpload w u = [SetError (Some (formatMessage w ''Please enter an image URL''))]"
  using assms by (simp add: handleUrlUpload_def)

lemma handleUrlUpload_throws:
  assumes "trim u \<noteq> []" and "new_URL w u = Inl e"
  shows "handleUrlUpload w u =
           [SetIsUploading True, SetError None, SetSuccess False,
            SetError (Some (urlErrorMessage w e)), SetIsUploading False]"
  using assms by (simp add: handleUrlUpload_def handleUrlUpload_try_def bind_io_def)

lemma urlErrorMessage_Invalid_URL:
  assumes "includes_js m ''Invalid URL''"
  shows "urlErrorMessage w (TypeError m) = formatMessage w ''Please enter a valid URL''"
  using assms by (simp add: urlErrorMessage_def)

lemma handleUrlUpload_input_errors_v8:
  "error (run state0 (handleUrlUpload world_v8 ''   '')) = Some ''Please enter an image URL''"
  "filter is_call (handleUrlUpload world_v8 ''   '') = []"
  "error (run state0 (handleUrlUpload world_v8 ''not a url'')) = Some ''Please enter a valid URL''"
  "filter is_call (handleUrlUpload world_v8 ''not a url'') = []"
  by (simp_all add: handleUrlUpload_def handleUrlUpload_try_def bind_io_def run_simps
      urlErrorMessage_def string_defs world_defs)

text \<open>
  C6 at the input \<open>not a url\<close>, where \<open>new URL\<close> throws the \<open>TypeError\<close> that Gecko
  words "URL constructor: not a url is not a valid URL.": no call is made, but the error
  set is the text of the engine, not the message for an invalid URL. The \<open>catch\<close> knows
  an invalid URL only by the words "Invalid URL" in the message.
\<close>

theorem handleUrlUpload_invalid_url_engine_text:
  "new_URL world_gecko ''not a url'' =
     Inl (TypeError ''URL constructor: not a url is not a valid URL.'') \<and>
   handleUrlUpload world_gecko ''not a url'' =
     [SetIsUploading True, SetError None, SetSuccess False,
      SetError (Some ''URL constructor: not a url is not a valid URL.''),
      SetIsUploading False] \<and>
   error (run state0 (handleUrlUpload world_gecko ''not a url'')) \<noteq>
     Some (formatMessage world_gecko ''Please enter a valid URL'')"
  by (simp add: handleUrlUpload_def handleUrlUpload_try_def bind_io_def run_simps
      urlErrorMessage_def string_defs world_defs)

section \<open>A decode failure\<close>

text \<open>
  C4: when the image does not decode, the run sets an error, leaves the success
  indicator unset and has no \<open>upload\<close> among its effects. In the URL flow the run gets
  to the decode when the URL is not blank and parses; in the file flow when the declared
  type starts with \<open>image/\<close> and the file reads as a data URL.
\<close>

theorem decode_failure_aborts:
  "(trim u \<noteq> [] \<and> new_URL w u = Inr () \<and> image_load w u = Inl e \<longrightarrow>
      error (run s (handleUrlUpload w u)) = Some (urlErrorMessage w e) \<and>
      \<not> success (run s (handleUrlUpload w u)) \<and>
      length (filter is_upload (handleUrlUpload w u)) = 0) \<and>
   (startsWith (type f) ''image/'' \<and> readAsDataURL w f = Inr d \<and> image_load w d = Inl e \<longrightarrow>
      error (run s (handleFileUpload w f)) = Some (fileErrorMessage w e) \<and>
      \<not> success (run s (handleFileUpload w f)) \<and>
      length (filter is_upload (handleFileUpload w f)) = 0)"
  by (auto simp: handleUrlUpload_def handleUrlUpload_try_def handleFileUpload_def
      handleFileUpload_try_def getImageInfo_def getFileMimeType_def fileToDataUrl_def
      bind_io_def call_def run_simps Let_def split: read_outcome.splits)

theorem decode_failure_aborts_witness:
  "error (run state0 (handleUrlUpload world_no_decode png_url)) =
     Some ''Failed to upload image. Please check the URL and try again.'' \<and>
   \<not> success (run state0 (handleUrlUpload world_no_decode png_url)) \<and>
   length (filter is_upload (handleUrlUpload world_no_decode png_url)) = 0 \<and>
   error (run state0 (handleFileUpload world_no_decode png_declared_webp)) =
     Some ''Failed to upload image. Please try again.'' \<and>
   \<not> success (run state0 (handleFileUpload world_no_decode png_declared_webp)) \<and>
   length (filter is_upload (handleFileUpload world_no_decode png_declared_webp)) = 0"
  using decode_failure_aborts [of png_url world_no_decode NotAnError state0 png_declared_webp
      "''data:image/webp;base64,''"]
  by (simp add: string_defs world_defs png_url_def png_declared_webp_def urlErrorMessage_def
      fileErrorMessage_def)

section \<open>A successful run\<close>

text \<open>
  C5: a run that sets the success indicator is, in this order: the three resets, the
  probes (reads, HEAD request, decode), the \<open>upload\<close> call, which returned an asset, the
  \<open>addElement\<close> call with the \<open>ref\<close> of that asset, \<open>whenUploaded\<close> of that asset,
  which resolved, and only then \<open>setSuccess(true)\<close>.
\<close>

theorem success_order:
  assumes "succeeded (submit w sub)"
  shows "\<exists>probes opts image el.
           submit w sub =
             [SetIsUploading True, SetError None, SetSuccess False] @ probes @
             [Upload opts, AddElement el, WhenUploaded image,
              SetSuccess True, SetImageUrl [], SetIsUploading False] \<and>
           list_all is_probe probes \<and> upload w opts = Inr image \<and> ref el = image \<and>
           whenUploaded w image = Inr ()"
  using submit_success_shape [OF assms] by blast

theorem success_order_witness:
  "succeeded (submit world_ok (UrlSubmission png_url)) \<and>
   (\<exists>probes opts image el.
      submit world_ok (UrlSubmission png_url) =
        [SetIsUploading True, SetError None, SetSuccess False] @ probes @
        [Upload opts, AddElement el, WhenUploaded image,
         SetSuccess True, SetImageUrl [], SetIsUploading False] \<and>
      list_all is_probe probes \<and> upload world_ok opts = Inr image \<and> ref el = image \<and>
      whenUploaded world_ok image = Inr ()) \<and>
   succeeded (submit world_ok (FileSubmission png_declared_webp)) \<and>
   (\<exists>probes opts image el.
      submit world_ok (FileSubmission png_declared_webp) =
        [SetIsUploading True, SetError None, SetSuccess False] @ probes @
        [Upload opts, AddElement el, WhenUploaded image,
         SetSuccess True, SetImageUrl [], SetIsUploading False] \<and>
      list_all is_probe probes \<and> upload world_ok opts = Inr image \<and> ref el = image \<and>
      whenUploaded world_ok image = Inr ())"
proof -
  have u: "succeeded (submit world_ok (UrlSubmission png_url))"
    by (simp add: succeeded_def url_ok_trace)
  have f: "succeeded (submit world_ok (FileSubmission png_declared_webp))"
    by (simp add: succeeded_def file_ok_trace)
  show ?thesis
    using u f success_order [OF u] success_order [OF f] by blast
qed

text \<open>
  C10: a run of either flow that sets the success indicator leaves the URL input empty.
\<close>

theorem success_clears_input:
  assumes "succeeded (submit w sub)"
  shows "success (run s (submit w sub)) \<and> imageUrl (run s (submit w sub)) = []"
proof -
  from submit_success_shape [OF assms] obtain probes opts image el where
    t: "submit w sub =
          [SetIsUploading True, SetError None, SetSuccess False] @ probes @
          [Upload opts, AddElement el, WhenUploaded image,
           SetSuccess True, SetImageUrl [], SetIsUploading False]"
    and p: "list_all is_probe probes"
    by blast
  from p have "\<And>s'. run s' probes = s'"
    by (simp add: probes_calls run_calls)
  then show ?thesis
    unfolding t by (simp add: run_simps)
qed

theorem success_clears_input_witness:
  "succeeded (submit world_ok (UrlSubmission png_url)) \<and>
   success (run state0 (submit world_ok (UrlSubmission png_url))) \<and>
   imageUrl (run state0 (submit world_ok (UrlSubmission png_url))) = [] \<and>
   imageUrl state0 \<noteq> [] \<and>
   succeeded (submit world_ok (FileSubmission png_declared_webp)) \<and>
   success (run state0 (submit world_ok (FileSubmission png_declared_webp))) \<and>
   imageUrl (run state0 (submit world_ok (FileSubmission png_declared_webp))) = []"
proof -
  have u: "succeeded (submit world_ok (UrlSubmission png_url))"
    by (simp add: succeeded_def url_ok_trace)
  have f: "succeeded (submit world_ok (FileSubmission png_declared_webp))"
    by (simp add: succeeded_def file_ok_trace)
  show ?thesis
    using u f success_clears_input [OF u, of state0] success_clears_input [OF f, of state0]
    by (simp add: state0_def)
qed

section \<open>One run at a time\<close>

lemma apply_event_call [simp]: "is_call c \<Longrightarrow> apply_event s c = s"
  by (cases c) simp_all

lemma segments_not_Nil: "segments t \<noteq> []"
  by (induction t) (auto split: list.splits)

lemma segments_writes: "list_all (\<lambda>e. \<not> is_call e) t \<Longrightarrow> segments t = [t]"
  by (induction t) auto

lemma segments_writes_call:
  "list_all (\<lambda>e. \<not> is_call e) ws \<Longrightarrow> is_call c \<Longrightarrow>
   segments (ws @ c # es) = (ws @ [c]) # segments es"
  by (induction ws) auto

lemma segments_calls:
  "list_all is_call cs \<Longrightarrow> list_all (\<lambda>e. \<not> is_call e) t \<Longrightarrow>
   segments (cs @ t) = map (\<lambda>c. [c]) cs @ [t]"
  by (induction cs) (auto simp: segments_writes)

lemma concat_segments: "concat (segments t) = t"
  by (induction t) (auto split: list.splits)

lemma segments_pending:
  assumes "list_all (\<lambda>e. \<not> is_call e) ws" and "is_call c" and "list_all is_call cs"
    and "list_all (\<lambda>e. \<not> is_call e) compl"
  shows "segments (ws @ c # cs @ compl) = (ws @ [c]) # map (\<lambda>c. [c]) cs @ [compl]"
  using assms by (simp add: segments_writes_call segments_calls)












lemma waiting_example_eq:
  "waiting_example =
     (\<lparr>imageUrl = png_url, isUploading = True, error = None, success = False\<rparr>,
      [(handleUrlUpload world_no_decode png_url,
        [[ImageLoad png_url],
         [SetError (Some ''Failed to upload image. Please check the URL and try again.''),
          SetIsUploading False]])])"
proof -
  have "trim png_url \<noteq> []"
    by (simp add: png_url_def string_defs)
  then show ?thesis
    by (simp add: waiting_example_def execute_def initial_state_def inputDisabled_def
        buttonDisabled_def onChange_def run_simps start_def)
       (simp add: url_no_decode_trace run_simps)
qed



text \<open>
  A run whose image does not decode is in flight; a click and a file choice come before
  it resolves and are ignored; the indicators at the end are those of the run.
\<close>

lemma rejected_submission_example:
  "indicators (fst (execute (initial_state, [])
      [Edit png_url, Click world_no_decode, Click world_ok,
       ChooseFile world_ok (Some png_declared_webp), Resume 0, Resume 0])) =
     (Some ''Failed to upload image. Please check the URL and try again.'', False)"
proof -
  have "execute (initial_state, [])
          [Edit png_url, Click world_no_decode, Click world_ok,
           ChooseFile world_ok (Some png_declared_webp), Resume 0, Resume 0] =
        execute waiting_example
          [Click world_ok, ChooseFile world_ok (Some png_declared_webp), Resume 0, Resume 0]"
    by (simp add: waiting_example_def execute_def)
  then show ?thesis
    by (simp add: waiting_example_eq execute_def buttonDisabled_def inputDisabled_def
        run_simps indicators_def)
qed

end
